theory Spec2Isabelle
  imports Complex_Main
begin

section \<open>The Audio container of opensoundscape/audio.py\<close>

text \<open>
  The module defines one class, \<open>Audio\<close>, with the slots \<open>samples\<close> and
  \<open>sample_rate\<close>, a constructor that accepts several kinds of input, and the methods
  \<open>trim\<close>, \<open>bandpass\<close>, \<open>spectrum\<close> and \<open>save\<close>.

  Conventions of the embedding:
  \<^item> a raise is a value \<open>Inl e\<close> of a sum type, a normal return is \<open>Inr v\<close>;
  \<^item> the times given to \<open>trim\<close> are Python numbers, an \<open>int\<close> or a \<open>float\<close>: a
    float is a double, nan or an infinity, its product is rounded to the nearest double,
    and \<open>int()\<close> of it raises when it is not finite;
  \<^item> frequencies and sample values are \<open>real\<close>: their arithmetic is exact, the
    rounding of doubles is not modelled for them;
  \<^item> the sample array is one-dimensional, a \<open>real list\<close>; the sample rate is an \<open>int\<close>;
  \<^item> functions of other packages (pathlib, librosa, soundfile, scipy) and the function
    \<open>bandpass_filter\<close> of \<open>opensoundscape.audio_tools\<close> are not part of the module:
    they are fields of a record \<open>library\<close> that every operation receives. What they
    raise is reported by them as \<open>Inl msg\<close> and becomes the error \<open>External msg\<close>,
    so that an exception of the module itself is never confused with theirs;
  \<^item> the file system is a state of type \<open>'w\<close>, read by the loading functions and
    changed by \<open>write_wav\<close> only.
\<close>

subsection \<open>Errors\<close>

datatype error =
    OpsoLoadAudioInputError string
  | OpsoLoadAudioInputTooLong
  | FileNotFoundError
  | AttributeError string
  | ValueError string
  | ZeroDivisionError
  | OverflowError
  | External string

definition external :: "string + 'a \<Rightarrow> error + 'a" where
  "external r = (case r of Inl msg \<Rightarrow> Inl (External msg) | Inr v \<Rightarrow> Inr v)"

subsection \<open>Data\<close>

record audio =
  samples :: "real list"
  sample_rate :: int

text \<open>
  An object of pathlib. \<open>Path\<close> is a concrete path (\<open>pathlib.Path\<close> and its
  subclasses), which has the method \<open>is_file\<close>. \<open>PurePath\<close> is a pure path that is
  not concrete (\<open>PurePosixPath\<close>, \<open>PureWindowsPath\<close>), which has not.
\<close>

datatype pathlib = Path string | PurePath string

text \<open>
  The argument \<open>audio\<close> of the constructor, by its class: \<open>str\<close> or \<open>np.str_\<close>, a
  subclass of \<open>pathlib.PurePath\<close> (concrete or not), a subclass of
  \<open>io.BufferedIOBase\<close>, \<open>np.ndarray\<close>, or any other class (given by its name).
\<close>

datatype 's audio_input =
    Str string
  | PathObject pathlib
  | BufferedIO 's
  | NdArray "real list"
  | OtherClass string

text \<open>
  What \<open>soundfile.read\<close> and \<open>librosa.resample\<close> return: one channel
  (\<open>ndim\<close> is 1) or several (\<open>ndim\<close> is 2).
\<close>

datatype decoded = Arr1 "real list" | Arr2 "real list list"

record ('w, 's) library =
  path_is_file :: "'w \<Rightarrow> string \<Rightarrow> bool"
  librosa_get_duration :: "'w \<Rightarrow> string \<Rightarrow> string + real"
  librosa_load :: "'w \<Rightarrow> string \<Rightarrow> int \<Rightarrow> string \<Rightarrow> string + real list"
  soundfile_read :: "'s \<Rightarrow> string + (decoded \<times> int)"
  librosa_resample :: "decoded \<Rightarrow> int \<Rightarrow> int \<Rightarrow> string \<Rightarrow> string + decoded"
  librosa_to_mono :: "real list list \<Rightarrow> string + real list"
  bandpass_filter :: "real list \<Rightarrow> real \<Rightarrow> real \<Rightarrow> int \<Rightarrow> int \<Rightarrow> string + real list"
  scipy_fft :: "real list \<Rightarrow> string + complex list"
  scipy_fftfreq :: "nat \<Rightarrow> real \<Rightarrow> string + real list"
  write_wav :: "'w \<Rightarrow> string \<Rightarrow> int \<Rightarrow> real list \<Rightarrow> (string + unit) \<times> 'w"

subsection \<open>Python primitives\<close>

text \<open>
  A Python float: a double (\<open>Finite x\<close>, where \<open>x\<close> is the real number that the double
  is), an infinity or nan.
\<close>

datatype pyfloat = Finite real | PosInf | NegInf | NaN

text \<open>
  Rounding a real to the nearest double, ties to the even significand (IEEE 754
  binary64). With \<open>2^e \<le> |x| < 2^(e+1)\<close> the doubles around \<open>x\<close> are the multiples
  of \<open>2^(e-52)\<close>; below \<open>2^-1022\<close> they are the multiples of \<open>2^-1074\<close>. A result
  of \<open>2^1024\<close> or more is an infinity.
\<close>

definition round_half_even :: "real \<Rightarrow> int" where
  "round_half_even x =
     (let f = \<lfloor>x\<rfloor>; d = x - of_int f
      in if d < 1/2 then f else if 1/2 < d then f + 1 else if even f then f else f + 1)"

definition overflow_threshold :: real where
  "overflow_threshold = 2 ^ 1024"

definition round_double :: "real \<Rightarrow> pyfloat" where
  "round_double x =
     (if x = 0 then Finite 0
      else
        (let e = max \<lfloor>log 2 \<bar>x\<bar>\<rfloor> (- 1022);
             q = 2 powi (e - 52);
             y = of_int (round_half_even (\<bar>x\<bar> / q)) * q
         in if overflow_threshold \<le> y then (if 0 < x then PosInf else NegInf)
            else Finite (if 0 < x then y else - y)))"

text \<open>
  The conversion of an \<open>int\<close> operand to a float: correctly rounded, and
  OverflowError (int too large to convert to float) beyond the doubles.
\<close>

definition float_of_int :: "int \<Rightarrow> error + real" where
  "float_of_int i =
     (case round_double (of_int i) of
        Finite y \<Rightarrow> Inr y
      | PosInf \<Rightarrow> Inl OverflowError
      | NegInf \<Rightarrow> Inl OverflowError
      | NaN \<Rightarrow> Inl OverflowError)"

text \<open>The product of a float and a double: it overflows to an infinity, it does not raise.\<close>

fun float_mul :: "pyfloat \<Rightarrow> real \<Rightarrow> pyfloat" where
  "float_mul (Finite x) y = round_double (x * y)"
| "float_mul NaN y = NaN"
| "float_mul PosInf y = (if y = 0 then NaN else if 0 < y then PosInf else NegInf)"
| "float_mul NegInf y = (if y = 0 then NaN else if 0 < y then NegInf else PosInf)"

text \<open>A number given as a time: a Python \<open>int\<close> or a Python \<open>float\<close>.\<close>

datatype number = PyInt int | PyFloat pyfloat

text \<open>\<open>t * r\<close> for an \<open>int\<close> \<open>r\<close>: exact on two ints, else \<open>r\<close> is converted first.\<close>

definition py_mul :: "number \<Rightarrow> int \<Rightarrow> error + number" where
  "py_mul t r =
     (case t of
        PyInt i \<Rightarrow> Inr (PyInt (i * r))
      | PyFloat f \<Rightarrow>
          (case float_of_int r of
             Inl e \<Rightarrow> Inl e
           | Inr y \<Rightarrow> Inr (PyFloat (float_mul f y))))"

text \<open>
  \<open>int(x)\<close>: a double is truncated towards zero; an infinity raises OverflowError and
  nan raises ValueError.
\<close>

definition truncate :: "real \<Rightarrow> int" where
  "truncate x = (if 0 \<le> x then \<lfloor>x\<rfloor> else \<lceil>x\<rceil>)"

definition py_int :: "number \<Rightarrow> error + int" where
  "py_int n =
     (case n of
        PyInt i \<Rightarrow> Inr i
      | PyFloat (Finite x) \<Rightarrow> Inr (truncate x)
      | PyFloat PosInf \<Rightarrow> Inl OverflowError
      | PyFloat NegInf \<Rightarrow> Inl OverflowError
      | PyFloat NaN \<Rightarrow> Inl (ValueError ''cannot convert float NaN to integer''))"

text \<open>
  A bound of a slice \<open>xs[i:j]\<close> on a sequence of length \<open>n\<close>: a negative bound
  counts from the end, and the result is clipped to \<open>0 .. n\<close>.
\<close>

definition slice_index :: "nat \<Rightarrow> int \<Rightarrow> nat" where
  "slice_index n i =
     (if i < 0 then (if i + int n < 0 then 0 else nat (i + int n))
      else if int n < i then n else nat i)"

definition py_slice :: "'a list \<Rightarrow> int \<Rightarrow> int \<Rightarrow> 'a list" where
  "py_slice xs i j =
     (let start = slice_index (length xs) i;
          stop = slice_index (length xs) j
      in take (stop - start) (drop start xs))"

text \<open>\<open>s.split(c)\<close> with a one-character separator: never empty; \<open>[-1]\<close> is \<open>last\<close>.\<close>

fun py_split :: "char \<Rightarrow> string \<Rightarrow> string list" where
  "py_split c [] = [[]]"
| "py_split c (x # xs) =
     (if x = c then [] # py_split c xs
      else (case py_split c xs of
              [] \<Rightarrow> [[x]]
            | t # ts \<Rightarrow> (x # t) # ts))"

subsection \<open>The constructor\<close>

text \<open>Lines 52 to 69: the class of the argument decides where the samples come from.\<close>

datatype 's origin = FromPath pathlib | FromSamples "real list" | FromStream 's

definition classify :: "'s audio_input \<Rightarrow> error + 's origin" where
  "classify audio =
     (case audio of
        Str p \<Rightarrow> Inr (FromPath (Path p))
      | PathObject path \<Rightarrow> Inr (FromPath path)
      | BufferedIO s \<Rightarrow> Inr (FromStream s)
      | NdArray xs \<Rightarrow> Inr (FromSamples xs)
      | OtherClass c \<Rightarrow> Inl (OpsoLoadAudioInputError c))"

text \<open>
  Lines 71 to 84: a path. On a pure path \<open>path.is_file()\<close> raises AttributeError: the
  object has no such method. \<open>librosa.get_duration\<close> is called only with a maximum.
\<close>

definition load_path ::
  "('w, 's) library \<Rightarrow> 'w \<Rightarrow> pathlib \<Rightarrow> int \<Rightarrow> real option \<Rightarrow> string \<Rightarrow> error + real list" where
  "load_path lib w path sr max_duration resample_type =
     (case path of
        PurePath p \<Rightarrow> Inl (AttributeError ''is_file'')
      | Path p \<Rightarrow>
          if \<not> path_is_file lib w p then Inl FileNotFoundError
          else
            (case max_duration of
               None \<Rightarrow> external (librosa_load lib w p sr resample_type)
             | Some m \<Rightarrow>
                 (case external (librosa_get_duration lib w p) of
                    Inl e \<Rightarrow> Inl e
                  | Inr d \<Rightarrow>
                      if d > m then Inl OpsoLoadAudioInputTooLong
                      else external (librosa_load lib w p sr resample_type))))"

text \<open>Lines 89 to 95: a stream. No duration check here.\<close>

definition load_stream ::
  "('w, 's) library \<Rightarrow> 's \<Rightarrow> int \<Rightarrow> string \<Rightarrow> error + real list" where
  "load_stream lib s sr resample_type =
     (case external (soundfile_read lib s) of
        Inl e \<Rightarrow> Inl e
      | Inr (input_samples, input_sample_rate) \<Rightarrow>
          (case external (librosa_resample lib input_samples input_sample_rate sr resample_type) of
             Inl e \<Rightarrow> Inl e
           | Inr (Arr1 xs) \<Rightarrow> Inr xs
           | Inr (Arr2 rows) \<Rightarrow> external (librosa_to_mono lib rows)))"

definition read_samples ::
  "('w, 's) library \<Rightarrow> 'w \<Rightarrow> 's origin \<Rightarrow> int \<Rightarrow> real option \<Rightarrow> string \<Rightarrow> error + real list" where
  "read_samples lib w origin sr max_duration resample_type =
     (case origin of
        FromPath p \<Rightarrow> load_path lib w p sr max_duration resample_type
      | FromSamples xs \<Rightarrow> Inr xs
      | FromStream s \<Rightarrow> load_stream lib s sr resample_type)"

text \<open>
  \<open>__init__\<close>: the two fields are stored (lines 97 and 98) after everything that can
  raise; the sample rate stored is the argument, unchecked.
\<close>

definition Audio_init ::
  "('w, 's) library \<Rightarrow> 'w \<Rightarrow> 's audio_input \<Rightarrow> int \<Rightarrow> real option \<Rightarrow> string \<Rightarrow> error + audio" where
  "Audio_init lib w audio sr max_duration resample_type =
     (case classify audio of
        Inl e \<Rightarrow> Inl e
      | Inr origin \<Rightarrow>
          (case read_samples lib w origin sr max_duration resample_type of
             Inl e \<Rightarrow> Inl e
           | Inr xs \<Rightarrow> Inr \<lparr>samples = xs, sample_rate = sr\<rparr>))"

text \<open>The defaults of the constructor's optional arguments.\<close>

definition default_sample_rate :: int where
  "default_sample_rate = 22050"

definition default_resample_type :: string where
  "default_resample_type = ''kaiser_fast''"

subsection \<open>Methods, on the fields\<close>

text \<open>
  The expression \<open>int(time * self.sample_rate)\<close> of lines 117 and 118: the product
  in Python's arithmetic, then the conversion, either of which can raise.
\<close>

definition sample_index :: "audio \<Rightarrow> number \<Rightarrow> error + int" where
  "sample_index self time =
     (case py_mul time (sample_rate self) of
        Inl e \<Rightarrow> Inl e
      | Inr product \<Rightarrow> py_int product)"

text \<open>Lines 108 to 120. \<open>Audio(samples_trimmed, self.sample_rate)\<close> is the constructor.\<close>

definition trim ::
  "('w, 's) library \<Rightarrow> 'w \<Rightarrow> audio \<Rightarrow> number \<Rightarrow> number \<Rightarrow> error + audio" where
  "trim lib w self start_time end_time =
     (case sample_index self start_time of
        Inl e \<Rightarrow> Inl e
      | Inr start_sample \<Rightarrow>
          (case sample_index self end_time of
             Inl e \<Rightarrow> Inl e
           | Inr end_sample \<Rightarrow>
               (let samples_trimmed = py_slice (samples self) start_sample end_sample
                in Audio_init lib w (NdArray samples_trimmed) (sample_rate self) None
                     default_resample_type)))"

text \<open>Lines 122 to 144. The argument \<open>order\<close> is not used: the call passes 9.\<close>

definition bandpass ::
  "('w, 's) library \<Rightarrow> 'w \<Rightarrow> audio \<Rightarrow> real \<Rightarrow> real \<Rightarrow> int \<Rightarrow> error + audio" where
  "bandpass lib w self low_f high_f order =
     (if low_f \<le> 0 then Inl (ValueError ''low_f must be greater than zero'')
      else if high_f \<ge> of_int (sample_rate self) / 2
        then Inl (ValueError ''high_f must be less than sample_rate/2'')
      else
        (case external (bandpass_filter lib (samples self) low_f high_f (sample_rate self) 9) of
           Inl e \<Rightarrow> Inl e
         | Inr filtered_samples \<Rightarrow>
             Audio_init lib w (NdArray filtered_samples) (sample_rate self) None
               default_resample_type))"

text \<open>
  Lines 147 to 170. \<open>1 / self.sample_rate\<close> and \<open>2.0 / N\<close> are Python divisions:
  they raise ZeroDivisionError on a zero divisor. \<open>2.0 / N\<close> is evaluated before the
  slice it multiplies. \<open>int(N / 2)\<close> is \<open>N div 2\<close> for a length.
\<close>

definition spectrum ::
  "('w, 's) library \<Rightarrow> audio \<Rightarrow> error + (real list \<times> real list)" where
  "spectrum lib self =
     (let N = length (samples self) in
      if sample_rate self = 0 then Inl ZeroDivisionError
      else
        (let T = 1 / of_int (sample_rate self) in
         case external (scipy_fft lib (samples self)) of
           Inl e \<Rightarrow> Inl e
         | Inr fft \<Rightarrow>
             (case external (scipy_fftfreq lib N T) of
                Inl e \<Rightarrow> Inl e
              | Inr freq \<Rightarrow>
                  if N = 0 then Inl ZeroDivisionError
                  else
                    (let scaled = map (\<lambda>z. of_real (2 / real N) * z)
                                    (py_slice fft 0 (int (N div 2)));
                         frequencies = py_slice freq 0 (int (N div 2))
                     in Inr (map cmod scaled, frequencies)))))"

text \<open>Lines 172 to 184. The result is the outcome and the file system after the call.\<close>

definition save ::
  "('w, 's) library \<Rightarrow> 'w \<Rightarrow> audio \<Rightarrow> string \<Rightarrow> (error + unit) \<times> 'w" where
  "save lib w self path =
     (if last (py_split CHR ''.'' path) \<noteq> ''wav''
        then (Inl (ValueError ''file extension must be .wav''), w)
      else
        (case write_wav lib w path (sample_rate self) (samples self) of
           (r, w') \<Rightarrow> (external r, w')))"

subsection \<open>Objects\<close>

text \<open>
  Instances have an identity. The heap is the list of the instances created so far, a
  reference is a position in it, and creating an instance appends to it. A method
  receives a reference that was returned by an earlier creation, so below the length.
\<close>

type_synonym ref = nat
type_synonym heap = "audio list"

definition alloc :: "heap \<Rightarrow> error + audio \<Rightarrow> (error + ref) \<times> heap" where
  "alloc h r = (case r of Inl e \<Rightarrow> (Inl e, h) | Inr a \<Rightarrow> (Inr (length h), h @ [a]))"

text \<open>The expression \<open>Audio(audio, sample_rate, max_duration, resample_type)\<close>.\<close>

definition Audio_new ::
  "('w, 's) library \<Rightarrow> 'w \<Rightarrow> heap \<Rightarrow> 's audio_input \<Rightarrow> int \<Rightarrow> real option \<Rightarrow> string
     \<Rightarrow> (error + ref) \<times> heap" where
  "Audio_new lib w h audio sr max_duration resample_type =
     alloc h (Audio_init lib w audio sr max_duration resample_type)"

text \<open>Lines 100 to 103: \<open>self.name = value\<close>, for every name and value.\<close>

definition Audio_setattr :: "heap \<Rightarrow> ref \<Rightarrow> string \<Rightarrow> 'v \<Rightarrow> (error + unit) \<times> heap" where
  "Audio_setattr h self name v = (Inl (AttributeError name), h)"

definition Audio_trim ::
  "('w, 's) library \<Rightarrow> 'w \<Rightarrow> heap \<Rightarrow> ref \<Rightarrow> number \<Rightarrow> number \<Rightarrow> (error + ref) \<times> heap" where
  "Audio_trim lib w h self start_time end_time =
     alloc h (trim lib w (h ! self) start_time end_time)"

definition Audio_bandpass ::
  "('w, 's) library \<Rightarrow> 'w \<Rightarrow> heap \<Rightarrow> ref \<Rightarrow> real \<Rightarrow> real \<Rightarrow> int \<Rightarrow> (error + ref) \<times> heap" where
  "Audio_bandpass lib w h self low_f high_f order =
     alloc h (bandpass lib w (h ! self) low_f high_f order)"

subsection \<open>The discrete Fourier transform, and the spectrum in the words of the specification\<close>

text \<open>
  The transform that \<open>scipy.fftpack.fft\<close> documents:
  \<open>y[k] = sum over n of x[n] * exp(-2 pi i k n / N)\<close>, for \<open>k\<close> below \<open>N\<close>.
\<close>

definition dft_coeff :: "real list \<Rightarrow> nat \<Rightarrow> complex" where
  "dft_coeff xs k =
     sum_list (map (\<lambda>n. of_real (xs ! n) * cis (- (2 * pi * real k * real n / real (length xs))))
                 [0..<length xs])"

definition dft :: "real list \<Rightarrow> complex list" where
  "dft xs = map (dft_coeff xs) [0..<length xs]"

text \<open>
  The specification's magnitude spectrum: for each index below \<open>N div 2\<close>, the absolute
  value of \<open>2/N\<close> times the entry of the transform.
\<close>

definition spec_magnitudes :: "real list \<Rightarrow> real list" where
  "spec_magnitudes xs =
     map (\<lambda>k. cmod (of_real (2 / real (length xs)) * dft_coeff xs k)) [0..<length xs div 2]"

subsection \<open>An instance of the libraries in memory\<close>

text \<open>
  To evaluate the operations on concrete inputs the libraries need an instance. In this
  one the file system is a list of waveform files, each a path with its rate and
  samples, and a stream is the decoded samples with their rate. Decoding does not
  resample: a rate other than the file's is refused. The transform is \<open>dft\<close>; like
  scipy's it raises on an input without points. The frequencies are those that
  \<open>fftfreq\<close> documents. The filter is a stand-in whose output shows the order it
  was given.
\<close>

type_synonym wav_files = "(string \<times> int \<times> real list) list"

definition mem_lib :: "(wav_files, real list \<times> int) library" where
  "mem_lib =
     \<lparr>path_is_file = (\<lambda>w p. map_of w p \<noteq> None),
      librosa_get_duration =
        (\<lambda>w p. case map_of w p of
                  None \<Rightarrow> Inl ''cannot open''
                | Some (r, xs) \<Rightarrow>
                    if r = 0 then Inl ''no rate'' else Inr (real (length xs) / of_int r)),
      librosa_load =
        (\<lambda>w p sr rt. case map_of w p of
                        None \<Rightarrow> Inl ''cannot open''
                      | Some (r, xs) \<Rightarrow> if r = sr then Inr xs else Inl ''cannot resample''),
      soundfile_read = (\<lambda>(xs, r). Inr (Arr1 xs, r)),
      librosa_resample = (\<lambda>a r sr rt. if r = sr then Inr a else Inl ''cannot resample''),
      librosa_to_mono = (\<lambda>rows. Inr (map (\<lambda>row. sum_list row / real (length row)) rows)),
      bandpass_filter = (\<lambda>xs lo hi r order. Inr (map (\<lambda>x. x * of_int order) xs)),
      scipy_fft =
        (\<lambda>xs. if xs = [] then Inl ''invalid number of data points (0) specified''
               else Inr (dft xs)),
      scipy_fftfreq =
        (\<lambda>n d. if real n * d = 0 then Inl ''float division by zero''
                else Inr (map (\<lambda>i. (if i < (n + 1) div 2 then real i else real i - real n)
                                      / (real n * d)) [0..<n])),
      write_wav = (\<lambda>w p r xs. (Inr (), (p, r, xs) # w))\<rparr>"

text \<open>A clip of four samples at two samples per second.\<close>

definition clip :: "audio" where
  "clip = \<lparr>samples = [1, 2, 3, 4], sample_rate = 2\<rparr>"

text \<open>Forty samples at a hundred samples per second.\<close>

definition tone :: audio where
  "tone = \<lparr>samples = replicate 40 1, sample_rate = 100\<rparr>"

text \<open>The doubles that the literals \<open>0.29\<close> and \<open>0.31\<close> denote.\<close>

definition double_0_29 :: real where
  "double_0_29 = 5224175567749775 / 2 ^ 54"

definition double_0_31 :: real where
  "double_0_31 = 5584463537939415 / 2 ^ 54"

text \<open>The double that the literal \<open>1e308\<close> denotes, and a clip at 22050 samples per second.\<close>

definition double_1e308 :: real where
  "double_1e308 = 100000000000000001097906362944045541740492309677311846336810682903157585404911491537163328978494688899061249669721172515611590283743140088328307009198146046031271664502933027185697489699588559043338384466165001178426897626212945177628091195786707458122783970171784415105291802893207873272974885715430223118336"

definition recording :: audio where
  "recording = \<lparr>samples = [1, 2, 3, 4], sample_rate = 22050\<rparr>"

text \<open>Two samples at two samples per second.\<close>

definition pair :: audio where
  "pair = \<lparr>samples = [1, 3], sample_rate = 2\<rparr>"

text \<open>A file system with one file of six samples at two samples per second.\<close>

definition disk :: wav_files where
  "disk = [(''a.wav'', 2, [1, 2, 3, 4, 5, 6])]"

subsection \<open>The length of a trimmed clip in the words of the specification\<close>

text \<open>
  The difference of the two indices \<open>s = int(a*r)\<close> and \<open>e = int(b*r)\<close>, clamped to
  \<open>0 .. N\<close>.
\<close>

definition spec_trim_length :: "nat \<Rightarrow> int \<Rightarrow> int \<Rightarrow> int" where
  "spec_trim_length N s e = max 0 (min (int N) (e - s))"

section \<open>Basic facts\<close>

lemma Audio_init_NdArray:
  "Audio_init lib w (NdArray xs) sr md rt = Inr \<lparr>samples = xs, sample_rate = sr\<rparr>"
  by (simp add: Audio_init_def classify_def read_samples_def)

lemma slice_index_le: "slice_index n i \<le> n"
  by (auto simp: slice_index_def)

lemma length_py_slice:
  "length (py_slice xs i j) = slice_index (length xs) j - slice_index (length xs) i"
  using slice_index_le [of "length xs" j] by (simp add: py_slice_def Let_def)

lemma slice_index_nonneg: "0 \<le> i \<Longrightarrow> int (slice_index n i) = min i (int n)"
  by (simp add: slice_index_def)

lemma py_slice_from_0: "k \<le> length xs \<Longrightarrow> py_slice xs 0 (int k) = take k xs"
  by (simp add: py_slice_def slice_index_def)

lemma py_split_not_Nil: "py_split c xs \<noteq> []"
  by (induction xs) (auto split: list.splits)

lemma py_split_no_sep: "c \<notin> set t \<Longrightarrow> py_split c t = [t]"
  by (induction t) auto

lemma py_split_append: "py_split c (q @ c # t) = py_split c q @ py_split c t"
  using py_split_not_Nil by (induction q) (auto split: list.splits)

lemma last_py_split_append: "c \<notin> set t \<Longrightarrow> last (py_split c (q @ c # t)) = t"
  by (simp add: py_split_append py_split_no_sep)

lemma last_py_split_cases:
  "(c \<notin> set p \<and> last (py_split c p) = p) \<or>
   (\<exists>q. p = q @ c # last (py_split c p) \<and> c \<notin> set (last (py_split c p)))"
proof (cases "c \<in> set p")
  case True
  then obtain q t where p: "p = q @ c # t" and t: "c \<notin> set t"
    by (auto dest: split_list_last)
  from t have "last (py_split c p) = t"
    unfolding p by (rule last_py_split_append)
  with p t show ?thesis by auto
next
  case False
  then show ?thesis by (simp add: py_split_no_sep)
qed

lemma ext_check_iff:
  "last (py_split CHR ''.'' p) = ''wav'' \<longleftrightarrow> p = ''wav'' \<or> (\<exists>q. p = q @ ''.wav'')"
proof
  assume h: "last (py_split CHR ''.'' p) = ''wav''"
  from last_py_split_cases [of "CHR ''.''" p] h
  show "p = ''wav'' \<or> (\<exists>q. p = q @ ''.wav'')" by auto
next
  assume "p = ''wav'' \<or> (\<exists>q. p = q @ ''.wav'')"
  then show "last (py_split CHR ''.'' p) = ''wav''"
  proof
    assume "p = ''wav''" then show ?thesis by simp
  next
    assume "\<exists>q. p = q @ ''.wav''"
    then obtain q where "p = q @ CHR ''.'' # ''wav''" by auto
    then show ?thesis using last_py_split_append [of "CHR ''.''" "''wav''" q] by simp
  qed
qed

lemma external_not_ValueError: "external r \<noteq> Inl (ValueError m)"
  by (simp add: external_def split: sum.splits)


lemma alloc_Inr: "alloc h (Inr a) = (Inr (length h), h @ [a])"
  by (simp add: alloc_def)

lemma alloc_cases:
  "(\<exists>e. r = Inl e \<and> alloc h r = (Inl e, h)) \<or> (\<exists>a. r = Inr a \<and> alloc h r = (Inr (length h), h @ [a]))"
  by (cases r) (simp_all add: alloc_def)

lemma trim_Inr:
  "sample_index a t1 = Inr s \<Longrightarrow> sample_index a t2 = Inr e \<Longrightarrow>
   trim lib w a t1 t2 = Inr \<lparr>samples = py_slice (samples a) s e, sample_rate = sample_rate a\<rparr>"
  by (simp add: trim_def Audio_init_NdArray)

lemma trim_Inl_start: "sample_index a t1 = Inl err \<Longrightarrow> trim lib w a t1 t2 = Inl err"
  by (simp add: trim_def)

lemma trim_Inl_end:
  "sample_index a t1 = Inr s \<Longrightarrow> sample_index a t2 = Inl err \<Longrightarrow> trim lib w a t1 t2 = Inl err"
  by (simp add: trim_def)

lemma sample_index_PyInt: "sample_index a (PyInt i) = Inr (i * sample_rate a)"
  by (simp add: sample_index_def py_mul_def py_int_def)

lemma sample_index_Finite:
  "float_of_int (sample_rate a) = Inr y \<Longrightarrow>
   sample_index a (PyFloat (Finite x)) = py_int (PyFloat (round_double (x * y)))"
  by (simp add: sample_index_def py_mul_def)

lemma floor_log2_eq:
  assumes "2 powi e \<le> x" "x < 2 powi (e + 1)"
  shows "\<lfloor>log 2 x\<rfloor> = e"
proof -
  have "0 < (2::real) powi e" by simp
  with assms have pos: "0 < x" by linarith
  have "(2::real) powr of_int e \<le> x \<and> x < 2 powr (of_int e + 1)"
    using assms powr_real_of_int' [of "2::real" e] powr_real_of_int' [of "2::real" "e + 1"]
    by simp
  then show ?thesis
    using floor_log_eq_powr_iff [of x 2 e] pos by simp
qed

text \<open>Rounding a positive real, with the exponent and the significand given.\<close>

lemma round_double_pos:
  assumes "2 powi e \<le> x" "x < 2 powi (e + 1)" "- 1022 \<le> e"
    and "round_half_even (x / 2 powi (e - 52)) = m"
    and "of_int m * 2 powi (e - 52) = y" "y < overflow_threshold"
  shows "round_double x = Finite y"
proof -
  have "0 < (2::real) powi e" by simp
  with assms have pos: "0 < x" by linarith
  have abs: "\<bar>x\<bar> = x" using pos by simp
  have e: "max \<lfloor>log 2 x\<rfloor> (- 1022) = e"
    using floor_log2_eq [OF assms(1,2)] assms(3) by simp
  show ?thesis
    using pos assms(4,5,6) unfolding round_double_def Let_def abs e by simp
qed

lemma round_double_pos_overflow:
  assumes "2 powi e \<le> x" "x < 2 powi (e + 1)" "- 1022 \<le> e"
    and "round_half_even (x / 2 powi (e - 52)) = m"
    and "overflow_threshold \<le> of_int m * 2 powi (e - 52)"
  shows "round_double x = PosInf"
proof -
  have "0 < (2::real) powi e" by simp
  with assms have pos: "0 < x" by linarith
  have abs: "\<bar>x\<bar> = x" using pos by simp
  have e: "max \<lfloor>log 2 x\<rfloor> (- 1022) = e"
    using floor_log2_eq [OF assms(1,2)] assms(3) by simp
  show ?thesis
    using pos assms(4,5) unfolding round_double_def Let_def abs e by simp
qed

lemmas round_double_eval =
  power_int_def power_divide round_half_even_def Let_def overflow_threshold_def

lemma float_of_int_2: "float_of_int 2 = Inr 2"
proof -
  have "round_double 2 = Finite 2"
    by (rule round_double_pos [where e = 1 and m = "2 ^ 52"]) (simp_all add: round_double_eval)
  then show ?thesis by (simp add: float_of_int_def)
qed

lemma float_of_int_100: "float_of_int 100 = Inr 100"
proof -
  have "round_double 100 = Finite 100"
    by (rule round_double_pos [where e = 6 and m = "100 * 2 ^ 46"])
      (simp_all add: round_double_eval)
  then show ?thesis by (simp add: float_of_int_def)
qed

text \<open>The literals \<open>0.29\<close> and \<open>0.31\<close> are read as the two doubles.\<close>

lemma round_double_0_29: "round_double (29 / 100) = Finite double_0_29"
  by (rule round_double_pos [where e = "- 2" and m = 5224175567749775])
    (simp_all add: round_double_eval double_0_29_def)

lemma round_double_0_31: "round_double (31 / 100) = Finite double_0_31"
  by (rule round_double_pos [where e = "- 2" and m = 5584463537939415])
    (simp_all add: round_double_eval double_0_31_def)

text \<open>
  \<open>0.29 * 100\<close> is the double below 29, and \<open>0.31 * 100\<close> is the double 31: the
  indices are 28 and 31.
\<close>

lemma sample_index_0_29: "sample_index tone (PyFloat (Finite double_0_29)) = Inr 28"
proof -
  have "round_double (double_0_29 * 100) = Finite (8162774324609023 / 2 ^ 48)"
    unfolding double_0_29_def
    by (rule round_double_pos [where e = 4 and m = 8162774324609023])
      (simp_all add: round_double_eval)
  then show ?thesis
    by (simp add: sample_index_def py_mul_def tone_def float_of_int_100 py_int_def truncate_def)
qed

lemma sample_index_0_31: "sample_index tone (PyFloat (Finite double_0_31)) = Inr 31"
proof -
  have "round_double (double_0_31 * 100) = Finite 31"
    unfolding double_0_31_def
    by (rule round_double_pos [where e = 4 and m = "31 * 2 ^ 48"])
      (simp_all add: round_double_eval)
  then show ?thesis
    by (simp add: sample_index_def py_mul_def tone_def float_of_int_100 py_int_def truncate_def)
qed

lemma sample_index_3: "sample_index clip (PyFloat (Finite 3)) = Inr 6"
proof -
  have "round_double (3 * 2) = Finite 6"
    by (rule round_double_pos [where e = 2 and m = "6 * 2 ^ 50"]) (simp_all add: round_double_eval)
  then show ?thesis
    by (simp add: sample_index_def py_mul_def clip_def float_of_int_2 py_int_def truncate_def)
qed

lemma sample_index_4: "sample_index clip (PyFloat (Finite 4)) = Inr 8"
proof -
  have "round_double (4 * 2) = Finite 8"
    by (rule round_double_pos [where e = 3 and m = "8 * 2 ^ 49"]) (simp_all add: round_double_eval)
  then show ?thesis
    by (simp add: sample_index_def py_mul_def clip_def float_of_int_2 py_int_def truncate_def)
qed

text \<open>\<open>1e308 * 22050\<close> is beyond the doubles: the product is an infinity.\<close>

lemma float_of_int_22050: "float_of_int 22050 = Inr 22050"
proof -
  have "round_double 22050 = Finite 22050"
    by (rule round_double_pos [where e = 14 and m = "22050 * 2 ^ 38"])
      (simp_all add: round_double_eval)
  then show ?thesis by (simp add: float_of_int_def)
qed

lemma sample_index_1e308: "sample_index recording (PyFloat (Finite double_1e308)) = Inl OverflowError"
proof -
  have "round_double (double_1e308 * 22050) = PosInf"
    unfolding double_1e308_def
    by (rule round_double_pos_overflow [where e = 1037 and m = 6743150686370522])
      (simp_all add: round_double_eval)
  then show ?thesis
    by (simp add: sample_index_def py_mul_def recording_def float_of_int_22050 py_int_def)
qed

lemma sample_index_NaN:
  "float_of_int (sample_rate a) = Inr y \<Longrightarrow>
   sample_index a (PyFloat NaN) = Inl (ValueError ''cannot convert float NaN to integer'')"
  by (simp add: sample_index_def py_mul_def py_int_def)

lemma sample_index_Inf:
  "float_of_int (sample_rate a) = Inr y \<Longrightarrow> y \<noteq> 0 \<Longrightarrow>
   sample_index a (PyFloat PosInf) = Inl OverflowError
   \<and> sample_index a (PyFloat NegInf) = Inl OverflowError"
  by (simp add: sample_index_def py_mul_def py_int_def)

lemma length_dft: "length (dft xs) = length xs"
  by (simp add: dft_def)

lemma take_dft: "k \<le> length xs \<Longrightarrow> take k (dft xs) = map (dft_coeff xs) [0..<k]"
  by (simp add: dft_def take_map)

lemma py_slice_0_0: "py_slice xs 0 0 = []"
  by (simp add: py_slice_def)

lemma Audio_init_sample_rate:
  "Audio_init lib w src sr md rt = Inr a \<Longrightarrow> sample_rate a = sr"
  by (auto simp: Audio_init_def split: sum.splits)

lemma load_path_mem:
  "load_path mem_lib disk (Path ''a.wav'') 2 None rt = Inr [1, 2, 3, 4, 5, 6]"
  by (simp add: load_path_def mem_lib_def disk_def external_def)

lemma Audio_new_Inl:
  "Audio_init lib w src sr md rt = Inl e \<Longrightarrow> Audio_new lib w h src sr md rt = (Inl e, h)"
  by (simp add: Audio_new_def alloc_def)

lemma Audio_init_path:
  "src = Str p \<or> src = PathObject (Path p) \<Longrightarrow>
   Audio_init lib w src sr md rt =
     (case load_path lib w (Path p) sr md rt of
        Inl e \<Rightarrow> Inl e
      | Inr xs \<Rightarrow> Inr \<lparr>samples = xs, sample_rate = sr\<rparr>)"
  by (auto simp: Audio_init_def classify_def read_samples_def)

lemma save_rejected:
  "last (py_split CHR ''.'' p) \<noteq> ''wav'' \<Longrightarrow>
   save lib w a p = (Inl (ValueError ''file extension must be .wav''), w)"
  by (simp add: save_def)

lemma save_accepted:
  "last (py_split CHR ''.'' p) = ''wav'' \<Longrightarrow>
   save lib w a p = (case write_wav lib w p (sample_rate a) (samples a) of
                      (r, w') \<Rightarrow> (external r, w'))"
  by (simp add: save_def)

lemma save_accepted_no_ValueError:
  "last (py_split CHR ''.'' p) = ''wav'' \<Longrightarrow> fst (save lib w a p) \<noteq> Inl (ValueError m)"
  by (simp add: save_accepted external_not_ValueError split: prod.splits)

section \<open>The claims\<close>

subsection \<open>C1: the container is immutable\<close>

text \<open>
  C1. Every assignment to an attribute of an instance raises (AttributeError, for every
  name and value, \<open>samples\<close> and \<open>sample_rate\<close> included) and leaves the heap as
  it was. \<open>trim\<close> and \<open>bandpass\<close>, when they do not raise, return a reference to a
  new instance; the instance they were called on keeps its fields, and a call that
  raises creates nothing. \<open>trim\<close> does not raise when its two indices can be computed.
\<close>

theorem audio_is_immutable:
  assumes "self < length h"
  shows "Audio_setattr h self name v = (Inl (AttributeError name), h)
    \<and> (case Audio_trim lib w h self t1 t2 of
          (Inl e, h') \<Rightarrow> h' = h
        | (Inr r, h') \<Rightarrow> r = length h \<and> r \<noteq> self \<and> (\<exists>a. h' = h @ [a]) \<and> h' ! self = h ! self)
    \<and> (sample_index (h ! self) t1 = Inr i \<and> sample_index (h ! self) t2 = Inr j \<longrightarrow>
         (\<exists>a. Audio_trim lib w h self t1 t2 = (Inr (length h), h @ [a])
              \<and> length h \<noteq> self \<and> (h @ [a]) ! self = h ! self))
    \<and> (case Audio_bandpass lib w h self lo hi k of
          (Inl e, h') \<Rightarrow> h' = h
        | (Inr r, h') \<Rightarrow> r = length h \<and> r \<noteq> self \<and> (\<exists>a. h' = h @ [a]) \<and> h' ! self = h ! self)"
proof (intro conjI impI)
  show "Audio_setattr h self name v = (Inl (AttributeError name), h)"
    by (simp add: Audio_setattr_def)
  show "case Audio_trim lib w h self t1 t2 of
          (Inl e, h') \<Rightarrow> h' = h
        | (Inr r, h') \<Rightarrow> r = length h \<and> r \<noteq> self \<and> (\<exists>a. h' = h @ [a]) \<and> h' ! self = h ! self"
    using assms alloc_cases [of "trim lib w (h ! self) t1 t2" h]
    by (auto simp: Audio_trim_def nth_append)
  show "\<exists>a. Audio_trim lib w h self t1 t2 = (Inr (length h), h @ [a])
           \<and> length h \<noteq> self \<and> (h @ [a]) ! self = h ! self"
    if "sample_index (h ! self) t1 = Inr i \<and> sample_index (h ! self) t2 = Inr j"
    using assms that by (auto simp: Audio_trim_def trim_Inr alloc_Inr nth_append)
  show "case Audio_bandpass lib w h self lo hi k of
          (Inl e, h') \<Rightarrow> h' = h
        | (Inr r, h') \<Rightarrow> r = length h \<and> r \<noteq> self \<and> (\<exists>a. h' = h @ [a]) \<and> h' ! self = h ! self"
    using assms alloc_cases [of "bandpass lib w (h ! self) lo hi k" h]
    by (auto simp: Audio_bandpass_def nth_append)
qed

theorem audio_is_immutable_witness:
  "(0::nat) < length [clip]
   \<and> Audio_setattr [clip] 0 ''samples'' [0::real] = (Inl (AttributeError ''samples''), [clip])
   \<and> Audio_setattr [clip] 0 ''sample_rate'' (8000::int) = (Inl (AttributeError ''sample_rate''), [clip])
   \<and> sample_index ([clip] ! 0) (PyInt 0) = Inr 0 \<and> sample_index ([clip] ! 0) (PyInt 1) = Inr 2
   \<and> Audio_trim mem_lib [] [clip] 0 (PyInt 0) (PyInt 1)
        = (Inr 1, [clip, \<lparr>samples = [1, 2], sample_rate = 2\<rparr>])
   \<and> Audio_trim mem_lib [] [clip] 0 (PyFloat NaN) (PyInt 1)
        = (Inl (ValueError ''cannot convert float NaN to integer''), [clip])
   \<and> Audio_bandpass mem_lib [] [clip] 0 (1/2) (3/4) 3
        = (Inr 1, [clip, \<lparr>samples = [9, 18, 27, 36], sample_rate = 2\<rparr>])"
proof -
  have len: "(0::nat) < length [clip]" by simp
  note imm = audio_is_immutable [OF len]
  have 1: "Audio_setattr [clip] 0 ''samples'' [0::real] = (Inl (AttributeError ''samples''), [clip])"
    by (rule imm [where name = "''samples''" and v = "[0::real]", THEN conjunct1])
  have 2: "Audio_setattr [clip] 0 ''sample_rate'' (8000::int) = (Inl (AttributeError ''sample_rate''), [clip])"
    by (rule imm [where name = "''sample_rate''" and v = "8000::int", THEN conjunct1])
  have idx: "sample_index ([clip] ! 0) (PyInt 0) = Inr 0 \<and> sample_index ([clip] ! 0) (PyInt 1) = Inr 2"
    by (simp add: sample_index_PyInt clip_def)
  have 3: "Audio_trim mem_lib [] [clip] 0 (PyInt 0) (PyInt 1)
        = (Inr 1, [clip, \<lparr>samples = [1, 2], sample_rate = 2\<rparr>])"
    using idx
    by (simp add: Audio_trim_def trim_Inr alloc_Inr) (simp add: clip_def py_slice_def slice_index_def)
  have nan: "sample_index clip (PyFloat NaN) = Inl (ValueError ''cannot convert float NaN to integer'')"
    by (rule sample_index_NaN [where y = 2]) (simp add: clip_def float_of_int_2)
  have 4: "Audio_trim mem_lib [] [clip] 0 (PyFloat NaN) (PyInt 1)
        = (Inl (ValueError ''cannot convert float NaN to integer''), [clip])"
    by (simp add: Audio_trim_def trim_Inl_start [OF nan] alloc_def)
  have 5: "Audio_bandpass mem_lib [] [clip] 0 (1/2) (3/4) 3
        = (Inr 1, [clip, \<lparr>samples = [9, 18, 27, 36], sample_rate = 2\<rparr>])"
    by (simp add: Audio_bandpass_def bandpass_def alloc_def clip_def mem_lib_def external_def
        Audio_init_NdArray)
  from len 1 2 idx 3 4 5 show ?thesis by blast
qed

subsection \<open>C2: the range errors of bandpass\<close>




subsection \<open>C3: the order given by the caller is ignored\<close>

text \<open>
  C3. For every order \<open>k\<close>, \<open>bandpass(low, high, order=k)\<close> is
  \<open>bandpass(low, high, order=9)\<close>: with valid cutoffs the filter is called with the
  order 9, whatever the caller gave.
\<close>

theorem bandpass_ignores_order:
  "bandpass lib w a lo hi k = bandpass lib w a lo hi 9
   \<and> (0 < lo \<and> hi < of_int (sample_rate a) / 2 \<longrightarrow>
        bandpass lib w a lo hi k =
          (case external (bandpass_filter lib (samples a) lo hi (sample_rate a) 9) of
             Inl e \<Rightarrow> Inl e
           | Inr ys \<Rightarrow> Inr \<lparr>samples = ys, sample_rate = sample_rate a\<rparr>))"
  by (simp add: bandpass_def Audio_init_NdArray split: sum.splits)

theorem bandpass_ignores_order_witness:
  "(0::real) < 1/2 \<and> (3/4::real) < of_int (sample_rate clip) / 2
   \<and> bandpass mem_lib [] clip (1/2) (3/4) 3 = bandpass mem_lib [] clip (1/2) (3/4) 9
   \<and> bandpass mem_lib [] clip (1/2) (3/4) 3 = Inr \<lparr>samples = [9, 18, 27, 36], sample_rate = 2\<rparr>"
proof -
  have hyp: "(0::real) < 1/2 \<and> (3/4::real) < of_int (sample_rate clip) / 2"
    by (simp add: clip_def)
  note ord = bandpass_ignores_order [where lib = mem_lib and w = "[]" and a = clip
      and lo = "1/2" and hi = "3/4" and k = 3]
  from ord have same: "bandpass mem_lib [] clip (1/2) (3/4) 3 = bandpass mem_lib [] clip (1/2) (3/4) 9"
    by (rule conjunct1)
  from ord hyp have "bandpass mem_lib [] clip (1/2) (3/4) 3 =
      (case external (bandpass_filter mem_lib (samples clip) (1/2) (3/4) (sample_rate clip) 9) of
         Inl e \<Rightarrow> Inl e
       | Inr ys \<Rightarrow> Inr \<lparr>samples = ys, sample_rate = sample_rate clip\<rparr>)"
    by blast
  also have "\<dots> = Inr \<lparr>samples = [9, 18, 27, 36], sample_rate = 2\<rparr>"
    by (simp add: clip_def mem_lib_def external_def)
  finally show ?thesis using hyp same by blast
qed

subsection \<open>C4: the length of a trimmed clip\<close>

text \<open>
  C4 as stated fails. The clip has four samples at two per second. Trimmed from second
  \<open>3.0\<close> to second \<open>4.0\<close> the indices are 6 and 8 and the result is empty (the slice
  6:8 of four samples), while the difference of the indices clamped to \<open>0 .. 4\<close> is 2.
\<close>

theorem trim_slice_length_counterexample:
  "sample_index clip (PyFloat (Finite 3)) = Inr 6
   \<and> sample_index clip (PyFloat (Finite 4)) = Inr 8
   \<and> trim mem_lib [] clip (PyFloat (Finite 3)) (PyFloat (Finite 4))
       = Inr \<lparr>samples = [], sample_rate = 2\<rparr>
   \<and> spec_trim_length (length (samples clip)) 6 8 = 2"
proof -
  have "trim mem_lib [] clip (PyFloat (Finite 3)) (PyFloat (Finite 4))
       = Inr \<lparr>samples = [], sample_rate = 2\<rparr>"
    by (simp add: trim_Inr [OF sample_index_3 sample_index_4])
      (simp add: clip_def py_slice_def slice_index_def)
  moreover have "spec_trim_length (length (samples clip)) 6 8 = 2"
    by (simp add: spec_trim_length_def clip_def)
  ultimately show ?thesis using sample_index_3 sample_index_4 by blast
qed

text \<open>
  C4, amended. The two indices \<open>s = int(a*r)\<close> and \<open>e = int(b*r)\<close> are computed in
  Python's arithmetic: on an \<open>int\<close> time the product is exact; on a \<open>float\<close> time the
  rate is converted to a double, the product is rounded to the nearest double and then
  truncated towards zero; nan raises ValueError and an infinity raises OverflowError.
  If one of the two computations raises, \<open>trim\<close> raises the same error, the start
  first. Otherwise \<open>trim\<close> returns a clip with the same sample rate whose samples are
  the slice from \<open>s\<close> to \<open>e\<close>, and their number is \<open>max 0 (E - S)\<close> where \<open>S\<close>
  and \<open>E\<close> are the two indices, each adjusted to the length as slicing does (a
  negative index counts from the end, then the index is clipped to \<open>0 .. N\<close>). For
  indices that are not negative this is \<open>max 0 (min e N - min s N)\<close>: each index is
  clamped, not their difference. With \<open>0 \<le> s \<le> e \<le> N\<close> it is the specification's
  value.
\<close>

theorem trim_slice_length:
  "(sample_index a t1 = Inr s \<and> sample_index a t2 = Inr e \<longrightarrow>
      (\<exists>a'. trim lib w a t1 t2 = Inr a'
         \<and> sample_rate a' = sample_rate a
         \<and> samples a' = py_slice (samples a) s e
         \<and> int (length (samples a'))
             = max 0 (int (slice_index (length (samples a)) e)
                      - int (slice_index (length (samples a)) s))
         \<and> (0 \<le> s \<and> 0 \<le> e \<longrightarrow>
              int (length (samples a'))
                = max 0 (min e (int (length (samples a))) - min s (int (length (samples a)))))
         \<and> (0 \<le> s \<and> s \<le> e \<and> e \<le> int (length (samples a)) \<longrightarrow>
              int (length (samples a')) = spec_trim_length (length (samples a)) s e)))
   \<and> (sample_index a t1 = Inl err \<longrightarrow> trim lib w a t1 t2 = Inl err)
   \<and> (sample_index a t1 = Inr s \<and> sample_index a t2 = Inl err \<longrightarrow>
        trim lib w a t1 t2 = Inl err)
   \<and> sample_index a (PyInt i) = Inr (i * sample_rate a)
   \<and> (float_of_int (sample_rate a) = Inr y \<longrightarrow>
        sample_index a (PyFloat (Finite x)) = py_int (PyFloat (round_double (x * y)))
        \<and> sample_index a (PyFloat NaN)
            = Inl (ValueError ''cannot convert float NaN to integer'')
        \<and> (y \<noteq> 0 \<longrightarrow> sample_index a (PyFloat PosInf) = Inl OverflowError
                       \<and> sample_index a (PyFloat NegInf) = Inl OverflowError))"
proof -
  let ?N = "length (samples a)"
  let ?a' = "\<lparr>samples = py_slice (samples a) s e, sample_rate = sample_rate a\<rparr>"
  have len: "int (length (samples ?a')) = max 0 (int (slice_index ?N e) - int (slice_index ?N s))"
    by (simp add: length_py_slice)
  have nonneg: "int (length (samples ?a')) = max 0 (min e (int ?N) - min s (int ?N))"
    if "0 \<le> s \<and> 0 \<le> e"
    using that len by (simp add: slice_index_nonneg)
  have inside: "int (length (samples ?a')) = spec_trim_length ?N s e"
    if "0 \<le> s \<and> s \<le> e \<and> e \<le> int ?N"
    using that nonneg by (simp add: spec_trim_length_def)
  have 1: "\<exists>a'. trim lib w a t1 t2 = Inr a'
         \<and> sample_rate a' = sample_rate a
         \<and> samples a' = py_slice (samples a) s e
         \<and> int (length (samples a'))
             = max 0 (int (slice_index ?N e) - int (slice_index ?N s))
         \<and> (0 \<le> s \<and> 0 \<le> e \<longrightarrow>
              int (length (samples a')) = max 0 (min e (int ?N) - min s (int ?N)))
         \<and> (0 \<le> s \<and> s \<le> e \<and> e \<le> int ?N \<longrightarrow>
              int (length (samples a')) = spec_trim_length ?N s e)"
    if h: "sample_index a t1 = Inr s \<and> sample_index a t2 = Inr e"
  proof -
    from h have t: "trim lib w a t1 t2 = Inr ?a'"
      by (simp add: trim_Inr)
    have "trim lib w a t1 t2 = Inr ?a'
         \<and> sample_rate ?a' = sample_rate a
         \<and> samples ?a' = py_slice (samples a) s e
         \<and> int (length (samples ?a'))
             = max 0 (int (slice_index ?N e) - int (slice_index ?N s))
         \<and> (0 \<le> s \<and> 0 \<le> e \<longrightarrow>
              int (length (samples ?a')) = max 0 (min e (int ?N) - min s (int ?N)))
         \<and> (0 \<le> s \<and> s \<le> e \<and> e \<le> int ?N \<longrightarrow>
              int (length (samples ?a')) = spec_trim_length ?N s e)"
      using t len nonneg inside by (intro conjI impI) simp_all
    then show ?thesis ..
  qed
  have 2: "sample_index a t1 = Inl err \<longrightarrow> trim lib w a t1 t2 = Inl err"
    by (simp add: trim_Inl_start)
  have 3: "sample_index a t1 = Inr s \<and> sample_index a t2 = Inl err \<longrightarrow>
        trim lib w a t1 t2 = Inl err"
    by (simp add: trim_Inl_end)
  have 4: "sample_index a (PyInt i) = Inr (i * sample_rate a)"
    by (rule sample_index_PyInt)
  have 5: "float_of_int (sample_rate a) = Inr y \<longrightarrow>
        sample_index a (PyFloat (Finite x)) = py_int (PyFloat (round_double (x * y)))
        \<and> sample_index a (PyFloat NaN)
            = Inl (ValueError ''cannot convert float NaN to integer'')
        \<and> (y \<noteq> 0 \<longrightarrow> sample_index a (PyFloat PosInf) = Inl OverflowError
                       \<and> sample_index a (PyFloat NegInf) = Inl OverflowError)"
    using sample_index_Finite [of a y x] sample_index_NaN [of a y] sample_index_Inf [of a y]
    by blast
  from 1 2 3 4 5 show ?thesis by blast
qed

text \<open>
  The theorem at \<open>trim(0.29, 0.31)\<close> on forty samples at the rate 100: the products
  round to the doubles \<open>28.999999999999996\<close> and \<open>31.0\<close>, the slice is 28:31 and has
  three samples. With nan as the start, and with an infinity as the end, \<open>trim\<close>
  raises; so does \<open>trim(0, 1e308)\<close> at the rate 22050, where the product overflows.
\<close>

theorem trim_slice_length_witness:
  "sample_index tone (PyFloat (Finite double_0_29)) = Inr 28
   \<and> sample_index tone (PyFloat (Finite double_0_31)) = Inr 31
   \<and> trim mem_lib [] tone (PyFloat (Finite double_0_29)) (PyFloat (Finite double_0_31))
       = Inr \<lparr>samples = [1, 1, 1], sample_rate = 100\<rparr>
   \<and> spec_trim_length 40 28 31 = 3
   \<and> float_of_int (sample_rate tone) = Inr 100
   \<and> sample_index tone (PyFloat NaN) = Inl (ValueError ''cannot convert float NaN to integer'')
   \<and> trim mem_lib [] tone (PyFloat NaN) (PyFloat (Finite double_0_31))
       = Inl (ValueError ''cannot convert float NaN to integer'')
   \<and> sample_index tone (PyFloat PosInf) = Inl OverflowError
   \<and> trim mem_lib [] tone (PyFloat (Finite double_0_29)) (PyFloat PosInf) = Inl OverflowError
   \<and> trim mem_lib [] tone (PyInt 1) (PyInt 5) = Inr \<lparr>samples = [], sample_rate = 100\<rparr>
   \<and> sample_index recording (PyInt 0) = Inr 0
   \<and> sample_index recording (PyFloat (Finite double_1e308)) = Inl OverflowError
   \<and> trim mem_lib [] recording (PyInt 0) (PyFloat (Finite double_1e308)) = Inl OverflowError"
proof -
  note s = sample_index_0_29 and e = sample_index_0_31
  have rate: "float_of_int (sample_rate tone) = Inr 100"
    by (simp add: tone_def float_of_int_100)
  note float = trim_slice_length [where a = tone and y = 100, THEN conjunct2, THEN conjunct2,
      THEN conjunct2, THEN conjunct2, rule_format, OF rate]
  have nan: "sample_index tone (PyFloat NaN) = Inl (ValueError ''cannot convert float NaN to integer'')"
    using float by blast
  have inf: "sample_index tone (PyFloat PosInf) = Inl OverflowError"
    using float by simp
  have slice: "py_slice (samples tone) 28 31 = [1, 1, 1]"
    by (simp add: tone_def py_slice_def slice_index_def numeral_eq_Suc)
  from trim_slice_length [where a = tone and ?t1.0 = "PyFloat (Finite double_0_29)"
      and ?t2.0 = "PyFloat (Finite double_0_31)" and s = 28 and e = 31 and lib = mem_lib
      and w = "[]", THEN conjunct1] s e
  obtain a' where a': "trim mem_lib [] tone (PyFloat (Finite double_0_29))
        (PyFloat (Finite double_0_31)) = Inr a'"
    "sample_rate a' = sample_rate tone" "samples a' = py_slice (samples tone) 28 31"
    by blast
  have "a' = \<lparr>samples = [1, 1, 1], sample_rate = 100\<rparr>"
    using a'(2,3) slice by (cases a') (simp add: tone_def)
  with a'(1) have 1: "trim mem_lib [] tone (PyFloat (Finite double_0_29))
        (PyFloat (Finite double_0_31)) = Inr \<lparr>samples = [1, 1, 1], sample_rate = 100\<rparr>
     \<and> spec_trim_length 40 28 31 = 3"
    by (simp add: spec_trim_length_def)
  from trim_slice_length [where a = tone and ?t1.0 = "PyFloat NaN"
      and ?t2.0 = "PyFloat (Finite double_0_31)" and lib = mem_lib and w = "[]"
      and err = "ValueError ''cannot convert float NaN to integer''"] nan
  have 2: "trim mem_lib [] tone (PyFloat NaN) (PyFloat (Finite double_0_31))
       = Inl (ValueError ''cannot convert float NaN to integer'')"
    by blast
  from trim_slice_length [where a = tone and ?t1.0 = "PyFloat (Finite double_0_29)"
      and ?t2.0 = "PyFloat PosInf" and lib = mem_lib and w = "[]" and s = 28
      and err = OverflowError] s inf
  have 3: "trim mem_lib [] tone (PyFloat (Finite double_0_29)) (PyFloat PosInf) = Inl OverflowError"
    by blast
  have idx: "sample_index tone (PyInt 1) = Inr 100" "sample_index tone (PyInt 5) = Inr 500"
    by (simp_all add: sample_index_PyInt tone_def)
  have 4: "trim mem_lib [] tone (PyInt 1) (PyInt 5) = Inr \<lparr>samples = [], sample_rate = 100\<rparr>"
    by (simp add: trim_Inr [OF idx]) (simp add: tone_def py_slice_def slice_index_def)
  have zero: "sample_index recording (PyInt 0) = Inr 0"
    using trim_slice_length [where a = recording and i = 0, THEN conjunct2, THEN conjunct2,
        THEN conjunct2, THEN conjunct1]
    by simp
  from trim_slice_length [where a = recording and ?t1.0 = "PyInt 0"
      and ?t2.0 = "PyFloat (Finite double_1e308)" and lib = mem_lib and w = "[]" and s = 0
      and err = OverflowError] zero sample_index_1e308
  have 5: "trim mem_lib [] recording (PyInt 0) (PyFloat (Finite double_1e308)) = Inl OverflowError"
    by blast
  from s e 1 rate nan 2 inf 3 4 zero sample_index_1e308 5 show ?thesis by blast
qed

subsection \<open>C5: the spectrum\<close>

text \<open>
  C5 as stated fails on a clip without samples, such as the one \<open>trim\<close> returns
  beyond the end: \<open>spectrum\<close> raises.
\<close>

theorem spectrum_after_trim_counterexample:
  "trim mem_lib [] clip (PyInt 3) (PyInt 4) = Inr \<lparr>samples = [], sample_rate = 2\<rparr>
   \<and> spectrum mem_lib \<lparr>samples = [], sample_rate = 2\<rparr>
       = Inl (External ''invalid number of data points (0) specified'')"
proof -
  have idx: "sample_index clip (PyInt 3) = Inr 6" "sample_index clip (PyInt 4) = Inr 8"
    by (simp_all add: sample_index_PyInt clip_def)
  have "trim mem_lib [] clip (PyInt 3) (PyInt 4) = Inr \<lparr>samples = [], sample_rate = 2\<rparr>"
    by (simp add: trim_Inr [OF idx]) (simp add: clip_def py_slice_def slice_index_def)
  moreover have "spectrum mem_lib \<lparr>samples = [], sample_rate = 2\<rparr>
       = Inl (External ''invalid number of data points (0) specified'')"
    by (simp add: spectrum_def mem_lib_def external_def)
  ultimately show ?thesis by blast
qed

text \<open>
  C5, amended. For a clip of \<open>N \<ge> 1\<close> samples with a sample rate that is not zero,
  when the library's transform is the discrete Fourier transform of the samples and
  \<open>fftfreq\<close> returns \<open>N\<close> frequencies, \<open>spectrum\<close> returns the magnitudes of the
  specification (the absolute value of \<open>2/N\<close> times each of the first \<open>N div 2\<close>
  entries of the transform) and the first \<open>N div 2\<close> frequencies, both of length
  \<open>N div 2\<close>. The result depends on the samples, the rate and the library only:
  \<open>spectrum\<close> takes and returns no heap and no file system.
\<close>

theorem spectrum_nonempty:
  assumes ne: "samples a \<noteq> []"
    and rate: "sample_rate a \<noteq> 0"
    and fft: "scipy_fft lib (samples a) = Inr (dft (samples a))"
    and freq: "scipy_fftfreq lib (length (samples a)) (1 / of_int (sample_rate a)) = Inr freq"
    and len: "length freq = length (samples a)"
  shows "spectrum lib a = Inr (spec_magnitudes (samples a), take (length (samples a) div 2) freq)
    \<and> length (spec_magnitudes (samples a)) = length (samples a) div 2
    \<and> length (take (length (samples a) div 2) freq) = length (samples a) div 2"
proof -
  let ?N = "length (samples a)"
  have half: "?N div 2 \<le> ?N" by simp
  have N: "?N \<noteq> 0" using ne by simp
  have s1: "py_slice (dft (samples a)) 0 (int (?N div 2)) = map (dft_coeff (samples a)) [0..<?N div 2]"
    using half by (simp add: py_slice_from_0 length_dft take_dft)
  have s2: "py_slice freq 0 (int (?N div 2)) = take (?N div 2) freq"
    using half len by (simp add: py_slice_from_0)
  have "spectrum lib a = Inr (spec_magnitudes (samples a), take (?N div 2) freq)"
    using N rate
    by (simp add: spectrum_def Let_def fft freq external_def s1 s2 spec_magnitudes_def o_def)
  moreover have "length (spec_magnitudes (samples a)) = ?N div 2"
    by (simp add: spec_magnitudes_def)
  moreover have "length (take (?N div 2) freq) = ?N div 2"
    using len by simp
  ultimately show ?thesis by blast
qed

theorem spectrum_nonempty_witness:
  "samples pair \<noteq> [] \<and> sample_rate pair \<noteq> 0
   \<and> scipy_fft mem_lib (samples pair) = Inr (dft (samples pair))
   \<and> scipy_fftfreq mem_lib (length (samples pair)) (1 / of_int (sample_rate pair)) = Inr [0, - 1]
   \<and> spectrum mem_lib pair = Inr ([4], [0])"
proof -
  have ne: "samples pair \<noteq> []" and rate: "sample_rate pair \<noteq> 0"
    by (simp_all add: pair_def)
  have fft: "scipy_fft mem_lib (samples pair) = Inr (dft (samples pair))"
    by (simp add: mem_lib_def pair_def)
  have freq: "scipy_fftfreq mem_lib (length (samples pair)) (1 / of_int (sample_rate pair)) = Inr [0, - 1]"
    by (simp add: mem_lib_def pair_def upt_rec)
  have len: "length [0, - 1 :: real] = length (samples pair)"
    by (simp add: pair_def)
  have mag: "spec_magnitudes (samples pair) = [4]"
    by (simp add: pair_def spec_magnitudes_def dft_coeff_def)
  from spectrum_nonempty [OF ne rate fft freq len]
  have "spectrum mem_lib pair = Inr ([4], [0])"
    by (simp add: mag) (simp add: pair_def)
  with ne rate fft freq show ?thesis by blast
qed

subsection \<open>C6: the spectrum of an empty clip\<close>

text \<open>
  C6 as stated fails: the constructor accepts an empty array, and \<open>spectrum\<close> on the
  instance raises.
\<close>

theorem spectrum_of_empty_counterexample:
  "Audio_init mem_lib [] (NdArray []) 22050 None ''kaiser_fast''
     = Inr \<lparr>samples = [], sample_rate = 22050\<rparr>
   \<and> spectrum mem_lib \<lparr>samples = [], sample_rate = 22050\<rparr>
       = Inl (External ''invalid number of data points (0) specified'')"
  by (simp add: Audio_init_NdArray spectrum_def mem_lib_def external_def)

text \<open>
  C6, amended. An empty clip is a valid value, but \<open>spectrum\<close> on it raises whatever
  the library does: a zero sample rate, the transform or \<open>fftfreq\<close> raise first, and
  if both return then \<open>2.0 / N\<close> raises ZeroDivisionError. The empty spectrum is
  what a clip of one sample gives.
\<close>

theorem spectrum_of_empty:
  "Audio_init lib w (NdArray []) r md rt = Inr \<lparr>samples = [], sample_rate = r\<rparr>
   \<and> spectrum lib \<lparr>samples = [], sample_rate = r\<rparr> =
       (if r = 0 then Inl ZeroDivisionError
        else case external (scipy_fft lib []) of
               Inl e \<Rightarrow> Inl e
             | Inr F \<Rightarrow> (case external (scipy_fftfreq lib 0 (1 / of_int r)) of
                           Inl e \<Rightarrow> Inl e
                         | Inr G \<Rightarrow> Inl ZeroDivisionError))
   \<and> isl (spectrum lib \<lparr>samples = [], sample_rate = r\<rparr>)
   \<and> (r \<noteq> 0 \<and> scipy_fft lib [x] = Inr F1 \<and> scipy_fftfreq lib 1 (1 / of_int r) = Inr G1 \<longrightarrow>
         spectrum lib \<lparr>samples = [x], sample_rate = r\<rparr> = Inr ([], []))"
proof -
  have 1: "Audio_init lib w (NdArray []) r md rt = Inr \<lparr>samples = [], sample_rate = r\<rparr>"
    by (rule Audio_init_NdArray)
  have 2: "spectrum lib \<lparr>samples = [], sample_rate = r\<rparr> =
       (if r = 0 then Inl ZeroDivisionError
        else case external (scipy_fft lib []) of
               Inl e \<Rightarrow> Inl e
             | Inr F \<Rightarrow> (case external (scipy_fftfreq lib 0 (1 / of_int r)) of
                           Inl e \<Rightarrow> Inl e
                         | Inr G \<Rightarrow> Inl ZeroDivisionError))"
    by (simp add: spectrum_def split: sum.splits)
  have 3: "isl (spectrum lib \<lparr>samples = [], sample_rate = r\<rparr>)"
    unfolding 2 by (simp split: sum.splits)
  have 4: "r \<noteq> 0 \<and> scipy_fft lib [x] = Inr F1 \<and> scipy_fftfreq lib 1 (1 / of_int r) = Inr G1 \<longrightarrow>
         spectrum lib \<lparr>samples = [x], sample_rate = r\<rparr> = Inr ([], [])"
    by (simp add: spectrum_def external_def py_slice_0_0)
  from 1 2 3 4 show ?thesis by blast
qed

theorem spectrum_of_empty_witness:
  "(2::int) \<noteq> 0 \<and> scipy_fft mem_lib [5] = Inr (dft [5])
   \<and> scipy_fftfreq mem_lib 1 (1 / of_int 2) = Inr [0]
   \<and> spectrum mem_lib \<lparr>samples = [5], sample_rate = 2\<rparr> = Inr ([], [])
   \<and> isl (spectrum mem_lib \<lparr>samples = [], sample_rate = 2\<rparr>)"
proof -
  have h: "(2::int) \<noteq> 0 \<and> scipy_fft mem_lib [5] = Inr (dft [5])
     \<and> scipy_fftfreq mem_lib 1 (1 / of_int 2) = Inr [0]"
    by (simp add: mem_lib_def)
  note e = spectrum_of_empty [where lib = mem_lib and r = 2 and x = 5 and ?F1.0 = "dft [5]"
      and ?G1.0 = "[0]" and w = "[]" and md = None and rt = "''kaiser_fast''"]
  from e h have 1: "spectrum mem_lib \<lparr>samples = [5], sample_rate = 2\<rparr> = Inr ([], [])"
    by blast
  from e have 2: "isl (spectrum mem_lib \<lparr>samples = [], sample_rate = 2\<rparr>)"
    by blast
  from h 1 2 show ?thesis by blast
qed

subsection \<open>C7: the sample rate stored\<close>

text \<open>
  C7 as stated fails: from an array, the constructor stores the sample rate 0.
\<close>

theorem zero_sample_rate_counterexample:
  "Audio_init mem_lib [] (NdArray [1, 2]) 0 None ''kaiser_fast''
     = Inr \<lparr>samples = [1, 2], sample_rate = 0\<rparr>
   \<and> \<not> 0 < sample_rate \<lparr>samples = [1, 2], sample_rate = 0\<rparr>"
  by (simp add: Audio_init_NdArray)

text \<open>
  C7, amended. Whatever the input, an instance that is constructed stores the sample
  rate its caller gave, unchecked: it is positive exactly when the argument is. From an
  array the construction succeeds with every rate.
\<close>

theorem stored_sample_rate:
  assumes "Audio_init lib w src sr md rt = Inr a"
  shows "sample_rate a = sr \<and> (0 < sample_rate a \<longleftrightarrow> 0 < sr)
    \<and> Audio_init lib w (NdArray xs) r md' rt' = Inr \<lparr>samples = xs, sample_rate = r\<rparr>"
  using Audio_init_sample_rate [OF assms] by (simp add: Audio_init_NdArray)

theorem stored_sample_rate_witness:
  "Audio_init mem_lib disk (Str ''a.wav'') 2 None ''kaiser_fast''
     = Inr \<lparr>samples = [1, 2, 3, 4, 5, 6], sample_rate = 2\<rparr>
   \<and> sample_rate \<lparr>samples = [1, 2, 3, 4, 5, 6], sample_rate = 2\<rparr> = 2
   \<and> (0 < sample_rate \<lparr>samples = [1, 2, 3, 4, 5, 6], sample_rate = 2\<rparr> \<longleftrightarrow> (0::int) < 2)"
proof -
  have i: "Audio_init mem_lib disk (Str ''a.wav'') 2 None ''kaiser_fast''
     = Inr \<lparr>samples = [1, 2, 3, 4, 5, 6], sample_rate = 2\<rparr>"
    by (simp add: Audio_init_def classify_def read_samples_def load_path_mem)
  from stored_sample_rate [OF i] i show ?thesis by blast
qed

subsection \<open>C8: errors of loading from a path\<close>

text \<open>
  C8. Line 57 admits every subclass of \<open>pathlib.PurePath\<close>, so also a pure path such
  as \<open>PurePosixPath('b.wav')\<close>. Line 72 then calls \<open>is_file\<close>, which a pure path
  has not: the construction raises AttributeError, not FileNotFoundError, whether the
  file exists or not, and the duration is never checked. No instance is created.
\<close>

theorem pure_path_raises_AttributeError:
  "\<not> path_is_file mem_lib disk ''b.wav''
   \<and> Audio_new mem_lib disk [clip] (PathObject (PurePath ''b.wav'')) 22050 None ''kaiser_fast''
        = (Inl (AttributeError ''is_file''), [clip])
   \<and> path_is_file mem_lib disk ''a.wav''
   \<and> librosa_get_duration mem_lib disk ''a.wav'' = Inr 3
   \<and> Audio_new mem_lib disk [clip] (PathObject (PurePath ''a.wav'')) 2 (Some 2) ''kaiser_fast''
        = (Inl (AttributeError ''is_file''), [clip])"
  by (simp add: Audio_new_def alloc_def Audio_init_def classify_def read_samples_def
      load_path_def)
    (simp add: mem_lib_def disk_def)

text \<open>
  For a string and for a concrete path the errors are those of the claim: if the path
  is not an existing file the construction raises FileNotFoundError; if it is, a
  maximal duration is given and the duration of the file exceeds it, the construction
  raises OpsoLoadAudioInputTooLong. Whenever a construction raises, whatever the input,
  no instance is created: the heap is as before.
\<close>

theorem path_errors:
  assumes src: "src = Str p \<or> src = PathObject (Path p)"
  shows "(\<not> path_is_file lib w p \<longrightarrow>
            Audio_new lib w h src sr md rt = (Inl FileNotFoundError, h))
       \<and> (path_is_file lib w p \<and> md = Some m \<and> librosa_get_duration lib w p = Inr d \<and> m < d \<longrightarrow>
            Audio_new lib w h src sr md rt = (Inl OpsoLoadAudioInputTooLong, h))
       \<and> (\<forall>e h'. Audio_new lib w h src sr md rt = (Inl e, h') \<longrightarrow> h' = h)"
proof (intro conjI impI allI)
  assume "\<not> path_is_file lib w p"
  then have "Audio_init lib w src sr md rt = Inl FileNotFoundError"
    by (simp add: Audio_init_path [OF src] load_path_def)
  then show "Audio_new lib w h src sr md rt = (Inl FileNotFoundError, h)"
    by (rule Audio_new_Inl)
next
  assume "path_is_file lib w p \<and> md = Some m \<and> librosa_get_duration lib w p = Inr d \<and> m < d"
  then have "Audio_init lib w src sr md rt = Inl OpsoLoadAudioInputTooLong"
    by (simp add: Audio_init_path [OF src] load_path_def external_def)
  then show "Audio_new lib w h src sr md rt = (Inl OpsoLoadAudioInputTooLong, h)"
    by (rule Audio_new_Inl)
next
  fix e h'
  assume "Audio_new lib w h src sr md rt = (Inl e, h')"
  then show "h' = h"
    by (auto simp: Audio_new_def alloc_def split: sum.splits)
qed

theorem path_errors_witness:
  "\<not> path_is_file mem_lib disk ''b.wav''
   \<and> Audio_new mem_lib disk [clip] (Str ''b.wav'') 2 None ''kaiser_fast''
        = (Inl FileNotFoundError, [clip])
   \<and> path_is_file mem_lib disk ''a.wav''
   \<and> librosa_get_duration mem_lib disk ''a.wav'' = Inr 3 \<and> (2::real) < 3
   \<and> Audio_new mem_lib disk [clip] (PathObject (Path ''a.wav'')) 2 (Some 2) ''kaiser_fast''
        = (Inl OpsoLoadAudioInputTooLong, [clip])
   \<and> Audio_new mem_lib disk [clip] (PathObject (Path ''a.wav'')) 2 (Some 3) ''kaiser_fast''
        = (Inr 1, [clip, \<lparr>samples = [1, 2, 3, 4, 5, 6], sample_rate = 2\<rparr>])"
proof -
  have nofile: "\<not> path_is_file mem_lib disk ''b.wav''"
    by (simp add: mem_lib_def disk_def)
  have isfile: "path_is_file mem_lib disk ''a.wav''"
    by (simp add: mem_lib_def disk_def)
  have dur: "librosa_get_duration mem_lib disk ''a.wav'' = Inr 3"
    by (simp add: mem_lib_def disk_def)
  have 1: "Audio_new mem_lib disk [clip] (Str ''b.wav'') 2 None ''kaiser_fast''
        = (Inl FileNotFoundError, [clip])"
    using path_errors [where src = "Str ''b.wav''" and p = "''b.wav''" and lib = mem_lib
        and w = disk and h = "[clip]" and sr = 2 and md = None and rt = "''kaiser_fast''"] nofile
    by blast
  have 2: "Audio_new mem_lib disk [clip] (PathObject (Path ''a.wav'')) 2 (Some 2) ''kaiser_fast''
        = (Inl OpsoLoadAudioInputTooLong, [clip])"
    using path_errors [where src = "PathObject (Path ''a.wav'')" and p = "''a.wav''" and lib = mem_lib
        and w = disk and h = "[clip]" and sr = 2 and md = "Some 2" and m = 2 and d = 3
        and rt = "''kaiser_fast''"] isfile dur
    by simp
  have 3: "Audio_new mem_lib disk [clip] (PathObject (Path ''a.wav'')) 2 (Some 3) ''kaiser_fast''
        = (Inr 1, [clip, \<lparr>samples = [1, 2, 3, 4, 5, 6], sample_rate = 2\<rparr>])"
    by (simp add: Audio_new_def alloc_def Audio_init_def classify_def read_samples_def
        load_path_def mem_lib_def disk_def external_def)
  from nofile isfile dur 1 2 3 show ?thesis by simp
qed

subsection \<open>C9: save and a path without the extension\<close>

text \<open>
  C9. The path \<open>wav\<close> has no extension, and \<open>save\<close> does not raise on it: the file
  is written.
\<close>

theorem save_bare_wav_is_written:
  "save mem_lib disk pair ''wav'' = (Inr (), (''wav'', 2, [1, 3]) # disk)"
  by (simp add: save_def mem_lib_def pair_def external_def)

subsection \<open>C10: the exact check of save\<close>

text \<open>
  C10. \<open>save\<close> raises its ValueError exactly when the last of the parts of the path
  between dots is not \<open>wav\<close>, compared as it is written; then nothing is written.
  Otherwise the file is written by \<open>write_wav\<close>. The check passes exactly on the path
  \<open>wav\<close> and on the paths that end in \<open>.wav\<close>: the path \<open>wav\<close> is written, a
  path that ends in \<open>.WAV\<close> is refused.
\<close>

theorem save_extension_check:
  "((\<exists>m. fst (save lib w a p) = Inl (ValueError m)) \<longleftrightarrow> last (py_split CHR ''.'' p) \<noteq> ''wav'')
   \<and> (last (py_split CHR ''.'' p) \<noteq> ''wav'' \<longrightarrow>
        save lib w a p = (Inl (ValueError ''file extension must be .wav''), w))
   \<and> (last (py_split CHR ''.'' p) = ''wav'' \<longrightarrow>
        save lib w a p = (case write_wav lib w p (sample_rate a) (samples a) of
                           (r, w') \<Rightarrow> (external r, w')))
   \<and> (last (py_split CHR ''.'' p) = ''wav'' \<longleftrightarrow> p = ''wav'' \<or> (\<exists>q. p = q @ ''.wav''))
   \<and> save lib w a ''wav'' = (case write_wav lib w ''wav'' (sample_rate a) (samples a) of
                              (r, w') \<Rightarrow> (external r, w'))
   \<and> save lib w a (q @ ''.WAV'') = (Inl (ValueError ''file extension must be .wav''), w)"
proof -
  have 1: "(\<exists>m. fst (save lib w a p) = Inl (ValueError m)) \<longleftrightarrow> last (py_split CHR ''.'' p) \<noteq> ''wav''"
    using save_rejected [of p lib w a] save_accepted_no_ValueError [of p lib w a]
    by (cases "last (py_split CHR ''.'' p) = ''wav''") auto
  have 2: "last (py_split CHR ''.'' p) \<noteq> ''wav'' \<longrightarrow>
        save lib w a p = (Inl (ValueError ''file extension must be .wav''), w)"
    by (simp add: save_rejected)
  have 3: "last (py_split CHR ''.'' p) = ''wav'' \<longrightarrow>
        save lib w a p = (case write_wav lib w p (sample_rate a) (samples a) of
                           (r, w') \<Rightarrow> (external r, w'))"
    by (simp add: save_accepted)
  have 4: "last (py_split CHR ''.'' p) = ''wav'' \<longleftrightarrow> p = ''wav'' \<or> (\<exists>q. p = q @ ''.wav'')"
    by (rule ext_check_iff)
  have 5: "save lib w a ''wav'' = (case write_wav lib w ''wav'' (sample_rate a) (samples a) of
                              (r, w') \<Rightarrow> (external r, w'))"
    by (rule save_accepted) simp
  have "last (py_split CHR ''.'' (q @ CHR ''.'' # ''WAV'')) = ''WAV''"
    by (rule last_py_split_append) simp
  then have 6: "save lib w a (q @ ''.WAV'') = (Inl (ValueError ''file extension must be .wav''), w)"
    by (simp add: save_rejected)
  from 1 2 3 4 5 6 show ?thesis by blast
qed

theorem save_extension_check_witness:
  "last (py_split CHR ''.'' ''clip.mp3'') \<noteq> ''wav''
   \<and> save mem_lib disk clip ''clip.mp3'' = (Inl (ValueError ''file extension must be .wav''), disk)
   \<and> save mem_lib disk clip ''clip.WAV'' = (Inl (ValueError ''file extension must be .wav''), disk)
   \<and> last (py_split CHR ''.'' ''clip.wav'') = ''wav''
   \<and> save mem_lib disk clip ''clip.wav'' = (Inr (), (''clip.wav'', 2, [1, 2, 3, 4]) # disk)
   \<and> save mem_lib disk clip ''wav'' = (Inr (), (''wav'', 2, [1, 2, 3, 4]) # disk)"
proof -
  have no: "last (py_split CHR ''.'' ''clip.mp3'') \<noteq> ''wav''" by simp
  have yes: "last (py_split CHR ''.'' ''clip.wav'') = ''wav''" by simp
  have w: "write_wav mem_lib disk p (sample_rate clip) (samples clip)
             = (Inr (), (p, 2, [1, 2, 3, 4]) # disk)" for p
    by (simp add: mem_lib_def clip_def)
  have 1: "save mem_lib disk clip ''clip.mp3'' = (Inl (ValueError ''file extension must be .wav''), disk)"
    using save_extension_check [where p = "''clip.mp3''" and lib = mem_lib and w = disk
        and a = clip and q = "''clip''"] no
    by blast
  have 2: "save mem_lib disk clip ''clip.WAV'' = (Inl (ValueError ''file extension must be .wav''), disk)"
    using save_extension_check [where p = "''clip.mp3''" and lib = mem_lib and w = disk
        and a = clip and q = "''clip''"]
    by simp
  have 3: "save mem_lib disk clip ''clip.wav'' = (Inr (), (''clip.wav'', 2, [1, 2, 3, 4]) # disk)"
    using save_extension_check [where p = "''clip.wav''" and lib = mem_lib and w = disk
        and a = clip and q = "''clip''"] yes
    by (simp add: w external_def)
  have 4: "save mem_lib disk clip ''wav'' = (Inr (), (''wav'', 2, [1, 2, 3, 4]) # disk)"
    using save_extension_check [where p = "''clip.wav''" and lib = mem_lib and w = disk
        and a = clip and q = "''clip''"]
    by (simp add: w external_def)
  from no yes 1 2 3 4 show ?thesis by blast
qed

end
